theory Spec2Isabelle
  imports Complex_Main "HOL-Library.Sublist"
begin

section \<open>Data model (src/types.ts)\<close>

text \<open>
  The value objects of \<^verbatim>\<open>types.ts\<close>, one record per exported type. The numeric fields
  are league-table counters; no function of the program computes with them, they are only
  copied and printed, so they are modelled as \<^typ>\<open>int\<close>. The field \<^verbatim>\<open>id\<close> is
  suffixed with its type, since \<^term>\<open>id\<close> is the identity function of HOL.
\<close>

record Team =
  id_Team :: int
  name :: string
  shortName :: string
  tla :: string
  crest :: string

record StandingEntry =
  position :: int
  team :: Team
  playedGames :: int
  won :: int
  draw :: int
  lost :: int
  points :: int
  goalsFor :: int
  goalsAgainst :: int
  goalDifference :: int
  form :: string

text \<open>
  Modelled from the spec: the type \<^verbatim>\<open>Match\<close> of \<^verbatim>\<open>types.ts\<close> declares no
  \<^verbatim>\<open>matchday\<close>, yet \<^verbatim>\<open>formatFixtures\<close> reads \<^verbatim>\<open>match.matchday\<close>. The spec's data
  model lists a "matchday number" among the fields of a fixture and its glossary calls it an
  integer, so the record carries it as an \<^typ>\<open>int\<close>.
\<close>

record Match =
  id_Match :: int
  homeTeam :: Team
  awayTeam :: Team
  utcDate :: string
  status :: string
  matchday :: int

record FormattedStanding =
  position :: int
  team :: string
  MP :: int
  W :: int
  D :: int
  L :: int
  F :: int
  A :: int
  GD :: int
  P :: int
  form :: string


section \<open>Table Formatter (src/index.ts, formatStandingsTable)\<close>

text \<open>
  \<^verbatim>\<open>standings.map(team => ({ position: team.position, team: team.team.name, ... }))\<close>:
  one object literal per row, each field read from the row the callback receives.
\<close>

definition formatStandingsTable :: "StandingEntry list \<Rightarrow> FormattedStanding list" where
  "formatStandingsTable standings =
     map (\<lambda>team. \<lparr> FormattedStanding.position = StandingEntry.position team,
                   FormattedStanding.team = name (StandingEntry.team team),
                   MP = playedGames team,
                   W = won team,
                   D = draw team,
                   L = lost team,
                   F = goalsFor team,
                   A = goalsAgainst team,
                   GD = goalDifference team,
                   P = points team,
                   FormattedStanding.form = StandingEntry.form team \<rparr>) standings"


section \<open>Errors\<close>

text \<open>
  What the program can throw: the rejection of an HTTP request by \<^verbatim>\<open>axios\<close> (transport
  failure or a status outside 2xx), an \<^verbatim>\<open>Error\<close> made with \<^verbatim>\<open>new Error(message)\<close>, and
  the \<^verbatim>\<open>TypeError\<close> that the runtime raises when a property is read from \<^verbatim>\<open>undefined\<close>
  or \<^verbatim>\<open>null\<close> (it carries the name of the property that was read) or when a library
  function rejects its argument.
\<close>

datatype js_error = AxiosError string | Error string | TypeError string

definition bindE :: "js_error + 'a \<Rightarrow> ('a \<Rightarrow> js_error + 'b) \<Rightarrow> js_error + 'b" where
  "bindE m f = (case m of Inl e \<Rightarrow> Inl e | Inr a \<Rightarrow> f a)"


section \<open>Fixture Formatter (src/index.ts, formatFixtures)\<close>

definition newline :: char where
  "newline = CHR 0x0A"

text \<open>\<^verbatim>\<open>Array.prototype.join\<close>: the elements with the separator between neighbours.\<close>

fun join :: "string \<Rightarrow> string list \<Rightarrow> string" where
  "join sep [] = []"
| "join sep [x] = x"
| "join sep (x # y # ys) = x @ sep @ join sep (y # ys)"

text \<open>
  \<^verbatim>\<open>fixtures[0]\<close> is \<^verbatim>\<open>undefined\<close> on an empty array, and reading \<^verbatim>\<open>.matchday\<close> from it
  throws; the guard \<^verbatim>\<open>if(!fixtures?.length) return ""\<close> comes first. The callback of
  \<^verbatim>\<open>map\<close> is the template literal \<^verbatim>\<open>`${match.homeTeam.name} - ${match.awayTeam.name}`\<close>.
\<close>

definition formatFixtures :: "Match list \<Rightarrow> js_error + string" where
  "formatFixtures fixtures =
     (if length fixtures = 0 then Inr []
      else
        (case fixtures of
           [] \<Rightarrow> Inl (TypeError ''matchday'')
         | first # _ \<Rightarrow>
             (let matchday0 = matchday first in
              Inr (join [newline]
                     (map (\<lambda>match. name (homeTeam match) @ '' - '' @ name (awayTeam match))
                        (filter (\<lambda>match. matchday match = matchday0) fixtures))))))"

subsection \<open>The spec's vocabulary for the formatter's output\<close>

text \<open>
  The spec speaks of the lines of the output and counts them. A text is read as lines the
  usual way: the empty text has no line, any other text has one line more than it has newline
  characters, and its first line ends before the first newline.
\<close>

definition line_count :: "string \<Rightarrow> nat" where
  "line_count s = (if s = [] then 0 else Suc (count_list s newline))"

definition first_line :: "string \<Rightarrow> string" where
  "first_line s = takeWhile (\<lambda>c. c \<noteq> newline) s"

text \<open>The number of input fixtures that share the matchday of the first one.\<close>

definition same_matchday_count :: "Match list \<Rightarrow> nat" where
  "same_matchday_count fixtures =
     (case fixtures of
        [] \<Rightarrow> 0
      | first # _ \<Rightarrow> length (filter (\<lambda>match. matchday match = matchday first) fixtures))"

text \<open>The line the formatter's template literal gives for one fixture.\<close>

definition fixture_line :: "Match \<Rightarrow> string" where
  "fixture_line match = name (homeTeam match) @ '' - '' @ name (awayTeam match)"

definition names_without_newline :: "Match \<Rightarrow> bool" where
  "names_without_newline match =
     (newline \<notin> set (name (homeTeam match)) \<and> newline \<notin> set (name (awayTeam match)))"


section \<open>Prompt Builder (src/index.ts, generatePrompt)\<close>

subsection \<open>\<^verbatim>\<open>JSON.stringify(standings, null, 2)\<close>\<close>

text \<open>
  The serialisation of ECMA-262 (JSON.stringify and its operations QuoteJSONString,
  SerializeJSONObject and SerializeJSONArray), at the value it is called on: an array of
  objects whose members are numbers and strings, no replacer, and a gap of two spaces. A
  number is printed in full decimal, which is what JavaScript does for an integer below
  \<open>10\<^sup>2\<^sup>1\<close> in magnitude; the counters of a league table are far below.
\<close>

definition digit_char :: "nat \<Rightarrow> char" where
  "digit_char n = ''0123456789abcdef'' ! (n mod 16)"

fun nat_toString :: "nat \<Rightarrow> string" where
  "nat_toString n =
     (if n < 10 then [digit_char n] else nat_toString (n div 10) @ [digit_char (n mod 10)])"

declare nat_toString.simps [simp del]

definition Number_toString :: "int \<Rightarrow> string" where
  "Number_toString i = (if i < 0 then ''-'' @ nat_toString (nat (- i)) else nat_toString (nat i))"

definition backslash :: char where
  "backslash = CHR 0x5C"

definition quote_char :: "char \<Rightarrow> string" where
  "quote_char c =
     (if c = CHR 0x08 then [backslash, CHR ''b'']
      else if c = CHR 0x09 then [backslash, CHR ''t'']
      else if c = CHR 0x0A then [backslash, CHR ''n'']
      else if c = CHR 0x0C then [backslash, CHR ''f'']
      else if c = CHR 0x0D then [backslash, CHR ''r'']
      else if c = CHR 0x22 then [backslash, CHR 0x22]
      else if c = backslash then [backslash, backslash]
      else if (of_char c :: nat) < 32
        then [backslash, CHR ''u'', CHR ''0'', CHR ''0'',
              digit_char (of_char c div 16), digit_char (of_char c mod 16)]
      else [c])"

definition QuoteJSONString :: "string \<Rightarrow> string" where
  "QuoteJSONString s = [CHR 0x22] @ concat (map quote_char s) @ [CHR 0x22]"

definition gap :: string where
  "gap = ''  ''"

definition SerializeJSONObject :: "string \<Rightarrow> (string \<times> string) list \<Rightarrow> string" where
  "SerializeJSONObject stepback members =
     (let indent = stepback @ gap in
      if members = [] then ''{}''
      else ''{'' @ [newline] @ indent @
           join ('','' @ [newline] @ indent)
             (map (\<lambda>(k, v). QuoteJSONString k @ '':'' @ '' '' @ v) members) @
           [newline] @ stepback @ ''}'')"

definition SerializeJSONArray :: "string \<Rightarrow> (string \<Rightarrow> string) list \<Rightarrow> string" where
  "SerializeJSONArray stepback elements =
     (let indent = stepback @ gap in
      if elements = [] then ''[]''
      else ''['' @ [newline] @ indent @
           join ('','' @ [newline] @ indent) (map (\<lambda>element. element indent) elements) @
           [newline] @ stepback @ '']'')"

definition stringify_FormattedStanding :: "FormattedStanding \<Rightarrow> string \<Rightarrow> string" where
  "stringify_FormattedStanding row indent =
     SerializeJSONObject indent
       [(''position'', Number_toString (FormattedStanding.position row)),
        (''team'', QuoteJSONString (FormattedStanding.team row)),
        (''MP'', Number_toString (MP row)),
        (''W'', Number_toString (W row)),
        (''D'', Number_toString (D row)),
        (''L'', Number_toString (L row)),
        (''F'', Number_toString (F row)),
        (''A'', Number_toString (A row)),
        (''GD'', Number_toString (GD row)),
        (''P'', Number_toString (P row)),
        (''form'', QuoteJSONString (FormattedStanding.form row))]"

definition JSON_stringify :: "FormattedStanding list \<Rightarrow> string" where
  "JSON_stringify standings = SerializeJSONArray [] (map stringify_FormattedStanding standings)"

subsection \<open>The template\<close>

definition generatePrompt :: "FormattedStanding list \<Rightarrow> string \<Rightarrow> string" where
  \<open>generatePrompt standings fixtures =
     ''Use this example football league table.\<newline>'' @
     JSON_stringify standings @
     ''\<newline>'' @
     ''\<newline>'' @
     ''Table headers are:\<newline>'' @
     ''MP means Matches Played\<newline>'' @
     ''W means number of wins\<newline>'' @
     ''D means number of draws\<newline>'' @
     ''L means number of losses\<newline>'' @
     ''F means goals scored\<newline>'' @
     ''A means goals conceded\<newline>'' @
     ''D is the goals difference\<newline>'' @
     ''P is the number of points\<newline>'' @
     ''\<newline>'' @
     ''Assume that these are the fixtures:\<newline>'' @
     ''\<newline>'' @
     fixtures @
     ''\<newline>'' @
     ''\<newline>'' @
     ''Act like a professional football match predictor and analyse these fixtures.\<newline>'' @
     ''For each match provide\<newline>'' @
     ''- A potential score\<newline>'' @
     ''- 90 minute result Win/Draw/Lose\<newline>'' @
     ''- Over or Under 2.5 goals\<newline>'' @
     ''- Both teams to score Yes/No\<newline>'' @
     ''- Probably of each of these predictions happening separately\<newline>'' @
     ''\<newline>'' @
     ''Print in JSON format as shown in the example below:\<newline>'' @
     ''{\<newline>'' @
     ''  "predictions": [\<newline>'' @
     ''    {\<newline>'' @
     ''      "match": "Team A v Team B",\<newline>'' @
     ''      "potentialScore": "2-1",\<newline>'' @
     ''      "result": {\<newline>'' @
     ''        "prediction": "Team A Win",\<newline>'' @
     ''        "probability": 65,\<newline>'' @
     ''        "analysis": "Analysis here"\<newline>'' @
     ''      },\<newline>'' @
     ''      "overUnder": {\<newline>'' @
     ''        "prediction": "Over 2.5 Goals",\<newline>'' @
     ''        "probability": 60,\<newline>'' @
     ''        "analysis": "Analysis here"\<newline>'' @
     ''      },\<newline>'' @
     ''      "bothTeamsToScore": {\<newline>'' @
     ''        "prediction": "Yes",\<newline>'' @
     ''        "probability": 75,\<newline>'' @
     ''        "analysis": "Analysis here"\<newline>'' @
     ''      }\<newline>'' @
     ''    }\<newline>'' @
     ''  ]\<newline>'' @
     ''}''\<close>


section \<open>Values received from the generative-AI service\<close>

text \<open>
  \<^verbatim>\<open>response.data\<close> of the POST is untyped (\<^verbatim>\<open>any\<close>): whatever the body of the reply
  parsed to. The code reads properties from it and tests them for truthiness, so the model
  is the JavaScript value itself. An object is the list of its own properties.
\<close>

datatype jsval =
    JUndefined
  | JNull
  | JBool bool
  | JNum int
  | JStr string
  | JArr "jsval list"
  | JObj "(string \<times> jsval) list"

text \<open>
  \<^verbatim>\<open>v.key\<close> for a key that is not an index and not a built-in property (the program reads
  \<^verbatim>\<open>candidates\<close>, \<^verbatim>\<open>content\<close>, \<^verbatim>\<open>parts\<close> and \<^verbatim>\<open>text\<close>): a \<^verbatim>\<open>TypeError\<close> on
  \<^verbatim>\<open>undefined\<close> and \<^verbatim>\<open>null\<close>, the property of an object when it has it, and
  \<^verbatim>\<open>undefined\<close> in every other case.
\<close>

fun js_prop :: "jsval \<Rightarrow> string \<Rightarrow> js_error + jsval" where
  "js_prop JUndefined key = Inl (TypeError key)"
| "js_prop JNull key = Inl (TypeError key)"
| "js_prop (JObj members) key =
     Inr (case map_of members key of None \<Rightarrow> JUndefined | Some v \<Rightarrow> v)"
| "js_prop v key = Inr JUndefined"

text \<open>
  \<^verbatim>\<open>v[0]\<close>: a \<^verbatim>\<open>TypeError\<close> on \<^verbatim>\<open>undefined\<close> and \<^verbatim>\<open>null\<close>, the first element of an
  array, the first character of a string, the property \<^verbatim>\<open>"0"\<close> of an object, and
  \<^verbatim>\<open>undefined\<close> where there is none.
\<close>

fun js_index0 :: "jsval \<Rightarrow> js_error + jsval" where
  "js_index0 JUndefined = Inl (TypeError ''0'')"
| "js_index0 JNull = Inl (TypeError ''0'')"
| "js_index0 (JArr []) = Inr JUndefined"
| "js_index0 (JArr (v # vs)) = Inr v"
| "js_index0 (JStr []) = Inr JUndefined"
| "js_index0 (JStr (c # cs)) = Inr (JStr [c])"
| "js_index0 (JObj members) =
     Inr (case map_of members ''0'' of None \<Rightarrow> JUndefined | Some v \<Rightarrow> v)"
| "js_index0 v = Inr JUndefined"

text \<open>Truthiness: every array and every object is truthy, also the empty ones.\<close>

fun truthy :: "jsval \<Rightarrow> bool" where
  "truthy JUndefined = False"
| "truthy JNull = False"
| "truthy (JBool b) = b"
| "truthy (JNum n) = (n \<noteq> 0)"
| "truthy (JStr s) = (s \<noteq> [])"
| "truthy (JArr vs) = True"
| "truthy (JObj members) = True"

subsection \<open>The declared shape of a prediction (src/types.ts)\<close>

text \<open>
  What it is for a value to have the types \<^verbatim>\<open>PredictionResult\<close>, \<^verbatim>\<open>MatchPrediction\<close>
  and \<^verbatim>\<open>PredictionResponse\<close>: an object with the declared members, each of the declared
  kind.
\<close>

definition is_JStr :: "jsval option \<Rightarrow> bool" where
  "is_JStr v = (case v of Some (JStr s) \<Rightarrow> True | _ \<Rightarrow> False)"

definition is_JNum :: "jsval option \<Rightarrow> bool" where
  "is_JNum v = (case v of Some (JNum n) \<Rightarrow> True | _ \<Rightarrow> False)"

definition is_PredictionResult :: "jsval option \<Rightarrow> bool" where
  "is_PredictionResult v =
     (case v of
        Some (JObj members) \<Rightarrow>
          is_JStr (map_of members ''prediction'') \<and>
          is_JNum (map_of members ''probability'') \<and>
          is_JStr (map_of members ''analysis'')
      | _ \<Rightarrow> False)"

definition is_MatchPrediction :: "jsval \<Rightarrow> bool" where
  "is_MatchPrediction v =
     (case v of
        JObj members \<Rightarrow>
          is_JStr (map_of members ''match'') \<and>
          is_JStr (map_of members ''potentialScore'') \<and>
          is_PredictionResult (map_of members ''result'') \<and>
          is_PredictionResult (map_of members ''overUnder'') \<and>
          is_PredictionResult (map_of members ''bothTeamsToScore'')
      | _ \<Rightarrow> False)"

definition is_PredictionResponse :: "jsval \<Rightarrow> bool" where
  "is_PredictionResponse v =
     (case v of
        JObj members \<Rightarrow>
          (case map_of members ''predictions'' of
             Some (JArr ps) \<Rightarrow> list_all is_MatchPrediction ps
           | _ \<Rightarrow> False)
      | _ \<Rightarrow> False)"


section \<open>The world the program runs in\<close>

text \<open>
  The replies of the two services, the environment and the clock are inputs of a run. The
  environment is \<^verbatim>\<open>process.env\<close> as it is after \<^verbatim>\<open>dotenv.config()\<close>. The
  sports-data replies are taken in the shape the fetchers declare for them
  (\<^verbatim>\<open>Promise<StandingEntry[]>\<close>, \<^verbatim>\<open>Promise<Match[]>\<close>): \<^verbatim>\<open>data.standings\<close> is a list of
  tables or absent, \<^verbatim>\<open>data.matches\<close> a list of fixtures or absent. Console output is not
  part of the model.
\<close>

record get_request =
  get_url :: string
  X_Auth_Token :: "string option"
  params :: "(string \<times> string) list"

record generationConfig =
  temperature :: real
  topK :: int
  topP :: int
  maxOutputTokens :: int

record post_request =
  post_url :: string
  contents_parts_text :: string
  config :: generationConfig

record standings_table =
  table :: "StandingEntry list"

record standings_data =
  data_standings :: "standings_table list option"

record matches_data =
  data_matches :: "Match list option"

record world =
  env :: "string \<Rightarrow> string option"
  dateFrom :: string
  dateTo :: string
  axios_get_standings :: "get_request \<Rightarrow> js_error + standings_data"
  axios_get_matches :: "get_request \<Rightarrow> js_error + matches_data"
  axios_post :: "post_request \<Rightarrow> js_error + jsval"
  output_exists :: bool

text \<open>
  What a run does to the outside, in order: the requests it sends and the calls of
  \<^verbatim>\<open>fs.mkdirSync\<close> and \<^verbatim>\<open>fs.writeFileSync\<close> that it completes.
\<close>

datatype event =
    HttpGet get_request
  | HttpPost post_request
  | MkDir string
  | WriteFile string string

type_synonym 'a io = "event list \<times> (js_error + 'a)"

definition bindIO :: "'a io \<Rightarrow> ('a \<Rightarrow> 'b io) \<Rightarrow> 'b io" where
  "bindIO m f =
     (case m of
        (es, Inl e) \<Rightarrow> (es, Inl e)
      | (es, Inr a) \<Rightarrow> (case f a of (es', r) \<Rightarrow> (es @ es', r)))"

definition is_write :: "event \<Rightarrow> bool" where
  "is_write ev = (case ev of WriteFile path contents \<Rightarrow> True | _ \<Rightarrow> False)"

definition is_request :: "event \<Rightarrow> bool" where
  "is_request ev = (case ev of HttpGet r \<Rightarrow> True | HttpPost r \<Rightarrow> True | _ \<Rightarrow> False)"


section \<open>Startup check (src/index.ts, lines 14 to 19)\<close>

definition requiredEnvVars :: "string list" where
  "requiredEnvVars = [''FOOTBALL_API_KEY'', ''GOOGLE_API_KEY'']"

text \<open>
  \<^verbatim>\<open>!process.env[envVar]\<close>: an unset variable is \<^verbatim>\<open>undefined\<close>, and the empty string is
  falsy too. The loop throws at the first variable that fails the test.
\<close>

fun check_env :: "(string \<Rightarrow> string option) \<Rightarrow> string list \<Rightarrow> js_error + unit" where
  "check_env e [] = Inr ()"
| "check_env e (envVar # rest) =
     (if e envVar = None \<or> e envVar = Some []
      then Inl (Error (''Missing required environment variable: '' @ envVar))
      else check_env e rest)"


section \<open>Fetchers (src/index.ts, getStandings and getFixtures)\<close>

definition FOOTBALL_API_BASE :: string where
  "FOOTBALL_API_BASE = ''http://api.football-data.org/v4''"

definition PREMIER_LEAGUE_ID :: string where
  "PREMIER_LEAGUE_ID = ''PL''"

text \<open>
  \<^verbatim>\<open>response.data.standings[0].table\<close>: reading \<^verbatim>\<open>[0]\<close> from an absent \<^verbatim>\<open>standings\<close>
  throws, and so does reading \<^verbatim>\<open>.table\<close> from the first element of an empty one. The
  \<^verbatim>\<open>catch\<close> logs and throws the same error again.
\<close>

definition getStandings :: "world \<Rightarrow> (StandingEntry list) io" where
  "getStandings w =
     (let request = \<lparr> get_url = FOOTBALL_API_BASE @ ''/competitions/'' @ PREMIER_LEAGUE_ID @
                                   ''/standings'',
                      X_Auth_Token = env w ''FOOTBALL_API_KEY'',
                      params = [] \<rparr>
      in ([HttpGet request],
          bindE (axios_get_standings w request) (\<lambda>data.
            case data_standings data of
              None \<Rightarrow> Inl (TypeError ''0'')
            | Some [] \<Rightarrow> Inl (TypeError ''table'')
            | Some (first # _) \<Rightarrow> Inr (table first))))"

text \<open>
  The two dates come from the clock. \<^verbatim>\<open>response.data.matches || []\<close>: an absent list
  becomes the empty one (the warning is console output only).
\<close>

definition getFixtures :: "world \<Rightarrow> (Match list) io" where
  "getFixtures w =
     (let request = \<lparr> get_url = FOOTBALL_API_BASE @ ''/competitions/'' @ PREMIER_LEAGUE_ID @
                                   ''/matches'',
                      X_Auth_Token = env w ''FOOTBALL_API_KEY'',
                      params = [(''dateFrom'', dateFrom w), (''dateTo'', dateTo w),
                                (''status'', ''SCHEDULED'')] \<rparr>
      in ([HttpGet request],
          bindE (axios_get_matches w request) (\<lambda>data.
            case data_matches data of
              None \<Rightarrow> Inr []
            | Some ms \<Rightarrow> Inr ms)))"


section \<open>Prediction Client (src/index.ts, getPredictions)\<close>

text \<open>
  One POST, then the test
  \<^verbatim>\<open>response.data.candidates && response.data.candidates[0].content\<close>: the right operand
  is evaluated only when the left one is truthy. In the true branch the function returns
  \<^verbatim>\<open>response.data.candidates[0].content.parts[0].text\<close> as it is
  (\<^verbatim>\<open>return predictions as PredictionResponse\<close>; the cast does nothing when the program
  runs). In the false branch it throws. The \<^verbatim>\<open>catch\<close> logs and throws the same error
  again.
\<close>

definition getPredictions :: "world \<Rightarrow> string \<Rightarrow> jsval io" where
  "getPredictions w prompt =
     (let request =
        \<lparr> post_url = ''https://generativelanguage.googleapis.com/v1beta/models/'' @
                     ''gemini-2.0-flash:generateContent?key='' @
                     (case env w ''GOOGLE_API_KEY'' of None \<Rightarrow> ''undefined'' | Some k \<Rightarrow> k),
          contents_parts_text = prompt,
          config = \<lparr> temperature = 0.7, topK = 1, topP = 1, maxOutputTokens = 2048 \<rparr> \<rparr>
      in ([HttpPost request],
          bindE (axios_post w request) (\<lambda>data.
          bindE (js_prop data ''candidates'') (\<lambda>candidates.
          bindE (if truthy candidates
                 then bindE (js_index0 candidates) (\<lambda>candidate. js_prop candidate ''content'')
                 else Inr candidates) (\<lambda>condition.
            if truthy condition
            then bindE (js_prop data ''candidates'') (\<lambda>candidates.
                 bindE (js_index0 candidates) (\<lambda>candidate.
                 bindE (js_prop candidate ''content'') (\<lambda>content.
                 bindE (js_prop content ''parts'') (\<lambda>parts.
                 bindE (js_index0 parts) (\<lambda>part.
                 js_prop part ''text'')))))
            else Inl (Error ''Invalid response format from Gemini API''))))))"


section \<open>Result Sink and entry point (src/index.ts, main)\<close>

definition outputPath :: string where
  "outputPath = ''./output/data.json''"

text \<open>
  \<^verbatim>\<open>fs.writeFileSync(path, data)\<close> takes a string (or a buffer, which no reply parses
  to) and throws a \<^verbatim>\<open>TypeError\<close> on any other value. The file system itself is taken to
  carry out what it is asked.
\<close>

definition writeFileSync :: "string \<Rightarrow> jsval \<Rightarrow> unit io" where
  "writeFileSync path data =
     (case data of
        JStr s \<Rightarrow> ([WriteFile path s], Inr ())
      | _ \<Rightarrow> ([], Inl (TypeError ''data'')))"

definition mkdirSync :: "string \<Rightarrow> unit io" where
  "mkdirSync path = ([MkDir path], Inr ())"

text \<open>
  The Result Sink, the last statements of the \<^verbatim>\<open>try\<close> block of \<^verbatim>\<open>main\<close>: the
  directory is made when it is missing, the file is cleared by writing the empty string, and
  then what \<^verbatim>\<open>getPredictions\<close> returned is written.
\<close>

definition result_sink :: "world \<Rightarrow> jsval \<Rightarrow> unit io" where
  "result_sink w predictions =
     bindIO (if \<not> output_exists w then mkdirSync ''./output'' else ([], Inr ())) (\<lambda>_.
     bindIO (writeFileSync outputPath (JStr [])) (\<lambda>_.
     writeFileSync outputPath predictions))"

text \<open>The \<^verbatim>\<open>try\<close> block of \<^verbatim>\<open>main\<close>, statement by statement.\<close>

definition main_try :: "world \<Rightarrow> unit io" where
  "main_try w =
     bindIO (getStandings w) (\<lambda>standings.
     bindIO (getFixtures w) (\<lambda>fixtures.
     (let formattedStandings = formatStandingsTable standings in
      bindIO ([], formatFixtures fixtures) (\<lambda>formattedFixtures.
      (let prompt = generatePrompt formattedStandings formattedFixtures in
       bindIO (getPredictions w prompt) (\<lambda>predictions.
       result_sink w predictions))))))"

record outcome =
  events :: "event list"
  exit_code :: nat

text \<open>
  \<^verbatim>\<open>main\<close>: the \<^verbatim>\<open>catch\<close> ends the process with \<^verbatim>\<open>process.exit(1)\<close>; without an error
  the process ends with code 0 when \<^verbatim>\<open>main\<close> is done.
\<close>

definition main :: "world \<Rightarrow> outcome" where
  "main w =
     (case main_try w of
        (es, Inl e) \<Rightarrow> \<lparr> events = es, exit_code = 1 \<rparr>
      | (es, Inr u) \<Rightarrow> \<lparr> events = es, exit_code = 0 \<rparr>)"

text \<open>
  The module, top to bottom: the check of the environment, whose error nothing catches (the
  runtime ends the process with code 1), and then the call of \<^verbatim>\<open>main\<close>.
\<close>

definition program :: "world \<Rightarrow> outcome" where
  "program w =
     (case check_env (env w) requiredEnvVars of
        Inl e \<Rightarrow> \<lparr> events = [], exit_code = 1 \<rparr>
      | Inr u \<Rightarrow> main w)"


section \<open>Example inputs\<close>

text \<open>
  The end-to-end scenario of the spec: one row of standings, and three fixtures of which
  two are on matchday 11 and one on matchday 12.
\<close>

definition team_named :: "string \<Rightarrow> Team" where
  "team_named n = \<lparr> id_Team = 0, name = n, shortName = [], tla = [], crest = [] \<rparr>"

definition fixture :: "string \<Rightarrow> string \<Rightarrow> int \<Rightarrow> Match" where
  "fixture home away day =
     \<lparr> id_Match = 0, homeTeam = team_named home, awayTeam = team_named away,
       utcDate = [], status = ''SCHEDULED'', matchday = day \<rparr>"

definition scenario_standings :: "StandingEntry list" where
  "scenario_standings =
     [\<lparr> StandingEntry.position = 1, StandingEntry.team = team_named ''Arsenal'',
        playedGames = 10, won = 8, draw = 1, lost = 1, points = 25, goalsFor = 20,
        goalsAgainst = 5, goalDifference = 15, StandingEntry.form = ''WWWWD'' \<rparr>]"

definition scenario_fixtures :: "Match list" where
  "scenario_fixtures =
     [fixture ''Arsenal'' ''Chelsea'' 11, fixture ''Liverpool'' ''City'' 11,
      fixture ''Arsenal'' ''City'' 12]"

text \<open>A single fixture whose home team has a name of two lines.\<close>

definition two_line_name_fixtures :: "Match list" where
  \<open>two_line_name_fixtures = [fixture ''A\<newline>B'' ''C'' 1]\<close>

text \<open>
  Worlds: both keys set, the sports-data service answers with the scenario, and the
  generative-AI service answers with the given body.
\<close>

definition world_replying :: "jsval \<Rightarrow> world" where
  "world_replying body =
     \<lparr> env = [''FOOTBALL_API_KEY'' \<mapsto> ''football-key'', ''GOOGLE_API_KEY'' \<mapsto> ''google-key''],
       dateFrom = ''2025-01-01'',
       dateTo = ''2025-01-11'',
       axios_get_standings = (\<lambda>request. Inr \<lparr> data_standings = Some [\<lparr> table = scenario_standings \<rparr>] \<rparr>),
       axios_get_matches = (\<lambda>request. Inr \<lparr> data_matches = Some scenario_fixtures \<rparr>),
       axios_post = (\<lambda>request. Inr body),
       output_exists = False \<rparr>"

text \<open>The same world started without \<^verbatim>\<open>GOOGLE_API_KEY\<close>.\<close>

definition world_without_google_key :: world where
  "world_without_google_key =
     (world_replying JNull) \<lparr> env := [''FOOTBALL_API_KEY'' \<mapsto> ''football-key''] \<rparr>"

text \<open>A reply in the expected structure, carrying the given text.\<close>

definition reply_with_text :: "string \<Rightarrow> jsval" where
  "reply_with_text t =
     JObj [(''candidates'',
            JArr [JObj [(''content'', JObj [(''parts'', JArr [JObj [(''text'', JStr t)]])])]])]"

text \<open>The prompt the scenario leads to.\<close>

definition scenario_prompt :: string where
  "scenario_prompt =
     generatePrompt (formatStandingsTable scenario_standings)
       (case formatFixtures scenario_fixtures of Inl e \<Rightarrow> [] | Inr s \<Rightarrow> s)"


section \<open>Properties of the Table Formatter\<close>

lemma formatStandingsTable_length:
  "length (formatStandingsTable standings) = length standings"
  by (simp add: formatStandingsTable_def)

lemma formatStandingsTable_nth:
  assumes "i < length standings"
  shows "formatStandingsTable standings ! i =
     \<lparr> FormattedStanding.position = StandingEntry.position (standings ! i),
       FormattedStanding.team = name (StandingEntry.team (standings ! i)),
       MP = playedGames (standings ! i),
       W = won (standings ! i),
       D = draw (standings ! i),
       L = lost (standings ! i),
       F = goalsFor (standings ! i),
       A = goalsAgainst (standings ! i),
       GD = goalDifference (standings ! i),
       P = points (standings ! i),
       FormattedStanding.form = StandingEntry.form (standings ! i) \<rparr>"
  using assms by (simp add: formatStandingsTable_def)

text \<open>
  C4. For every sequence of standings the formatted table has the same length, its row
  \<open>i\<close> is made from input row \<open>i\<close> alone, field by field (so the league order is kept), and
  the \<open>P\<close> field of row \<open>i\<close> is the points field of input row \<open>i\<close>, copied and not
  recomputed.
\<close>

theorem formatStandingsTable_length_order_points:
  "length (formatStandingsTable standings) = length standings \<and>
   (\<forall>i < length standings.
      P (formatStandingsTable standings ! i) = points (standings ! i) \<and>
      formatStandingsTable standings ! i =
        \<lparr> FormattedStanding.position = StandingEntry.position (standings ! i),
          FormattedStanding.team = name (StandingEntry.team (standings ! i)),
          MP = playedGames (standings ! i),
          W = won (standings ! i),
          D = draw (standings ! i),
          L = lost (standings ! i),
          F = goalsFor (standings ! i),
          A = goalsAgainst (standings ! i),
          GD = goalDifference (standings ! i),
          P = points (standings ! i),
          FormattedStanding.form = StandingEntry.form (standings ! i) \<rparr>)"
  by (simp add: formatStandingsTable_length formatStandingsTable_nth)

theorem formatStandingsTable_length_order_points_witness:
  "(0::nat) < length scenario_standings \<and>
   length (formatStandingsTable scenario_standings) = 1 \<and>
   P (formatStandingsTable scenario_standings ! 0) = 25 \<and>
   FormattedStanding.team (formatStandingsTable scenario_standings ! 0) = ''Arsenal''"
  using formatStandingsTable_length_order_points [of scenario_standings]
  by (simp add: scenario_standings_def team_named_def)

text \<open>
  C10. The formatter distributes over concatenation: formatting \<open>xs @ ys\<close> gives the
  formatted \<open>xs\<close> followed by the formatted \<open>ys\<close>.
\<close>

theorem formatStandingsTable_append:
  "formatStandingsTable (xs @ ys) = formatStandingsTable xs @ formatStandingsTable ys"
  by (simp add: formatStandingsTable_def)


section \<open>Properties of the Fixture Formatter\<close>

lemma join_Cons: "join sep (x # xs) = (if xs = [] then x else x @ sep @ join sep xs)"
  by (cases xs) simp_all

lemma join_not_Nil: "ls \<noteq> [] \<Longrightarrow> hd ls \<noteq> [] \<Longrightarrow> join sep ls \<noteq> []"
  by (cases ls) (simp_all add: join_Cons)

lemma count_list_join:
  "ls \<noteq> [] \<Longrightarrow> \<forall>l \<in> set ls. c \<notin> set l \<Longrightarrow> count_list (join [c] ls) c = length ls - 1"
proof (induction ls)
  case Nil
  then show ?case by simp
next
  case (Cons l ls)
  show ?case
  proof (cases ls)
    case Nil
    with Cons.prems show ?thesis by (simp add: count_list_0_iff)
  next
    case (Cons l' ls')
    with Cons.prems Cons.IH show ?thesis
      by (simp add: join_Cons count_list_0_iff)
  qed
qed

lemma fixture_line_nonempty: "fixture_line m \<noteq> []"
  by (simp add: fixture_line_def)

lemma fixture_line_newline:
  "names_without_newline m \<Longrightarrow> newline \<notin> set (fixture_line m)"
  by (simp add: fixture_line_def names_without_newline_def newline_def)

lemma formatFixtures_Nil: "formatFixtures [] = Inr []"
  by (simp add: formatFixtures_def)

lemma fixture_line_fun:
  "fixture_line = (\<lambda>m. name (homeTeam m) @ '' - '' @ name (awayTeam m))"
  by (simp add: fun_eq_iff fixture_line_def)

lemma formatFixtures_Cons:
  "formatFixtures (f # fs) =
     Inr (join [newline] (map fixture_line (filter (\<lambda>m. matchday m = matchday f) (f # fs))))"
  unfolding fixture_line_fun formatFixtures_def Let_def by simp

text \<open>
  C2. On the empty sequence the formatter returns the empty string, and it throws nothing.
  On a non-empty sequence it returns the lines \<open>home name - away name\<close> of the retained
  fixtures, joined by newlines, where the retained fixtures are the input fixtures on the
  matchday of the first one, in input order: every retained fixture is on that matchday,
  every fixture on another matchday is left out, and none on that matchday is left out.
\<close>

theorem formatFixtures_filters_first_matchday:
  "formatFixtures [] = Inr [] \<and>
   (fixtures \<noteq> [] \<longrightarrow>
      (\<exists>kept. formatFixtures fixtures =
                 Inr (join [newline]
                        (map (\<lambda>m. name (homeTeam m) @ '' - '' @ name (awayTeam m)) kept)) \<and>
              subseq kept fixtures \<and>
              (\<forall>m \<in> set kept. matchday m = matchday (hd fixtures)) \<and>
              (\<forall>m \<in> set fixtures. matchday m \<noteq> matchday (hd fixtures) \<longrightarrow> m \<notin> set kept) \<and>
              (\<forall>m \<in> set fixtures. matchday m = matchday (hd fixtures) \<longrightarrow> m \<in> set kept) \<and>
              length kept = same_matchday_count fixtures))"
proof (intro conjI impI)
  show "formatFixtures [] = Inr []" by (rule formatFixtures_Nil)
next
  assume "fixtures \<noteq> []"
  then obtain f fs where fixtures: "fixtures = f # fs" by (cases fixtures) auto
  let ?kept = "filter (\<lambda>m. matchday m = matchday f) (f # fs)"
  have "formatFixtures fixtures =
          Inr (join [newline] (map (\<lambda>m. name (homeTeam m) @ '' - '' @ name (awayTeam m)) ?kept))"
    unfolding fixtures formatFixtures_Cons fixture_line_fun ..
  moreover have "subseq ?kept fixtures" unfolding fixtures by (rule subseq_filter_left)
  moreover have "\<forall>m \<in> set ?kept. matchday m = matchday (hd fixtures)"
    by (simp add: fixtures)
  moreover have "\<forall>m \<in> set fixtures. matchday m \<noteq> matchday (hd fixtures) \<longrightarrow> m \<notin> set ?kept"
    by (auto simp add: fixtures)
  moreover have "\<forall>m \<in> set fixtures. matchday m = matchday (hd fixtures) \<longrightarrow> m \<in> set ?kept"
    by (auto simp add: fixtures)
  moreover have "length ?kept = same_matchday_count fixtures"
    by (simp add: fixtures same_matchday_count_def)
  ultimately show "\<exists>kept. formatFixtures fixtures =
                 Inr (join [newline]
                        (map (\<lambda>m. name (homeTeam m) @ '' - '' @ name (awayTeam m)) kept)) \<and>
              subseq kept fixtures \<and>
              (\<forall>m \<in> set kept. matchday m = matchday (hd fixtures)) \<and>
              (\<forall>m \<in> set fixtures. matchday m \<noteq> matchday (hd fixtures) \<longrightarrow> m \<notin> set kept) \<and>
              (\<forall>m \<in> set fixtures. matchday m = matchday (hd fixtures) \<longrightarrow> m \<in> set kept) \<and>
              length kept = same_matchday_count fixtures"
    by blast
qed

theorem formatFixtures_filters_first_matchday_witness:
  \<open>scenario_fixtures \<noteq> [] \<and>
   formatFixtures scenario_fixtures = Inr ''Arsenal - Chelsea\<newline>Liverpool - City'' \<and>
   same_matchday_count scenario_fixtures = 2\<close>
  using formatFixtures_filters_first_matchday [of scenario_fixtures]
  by (simp add: scenario_fixtures_def fixture_def team_named_def formatFixtures_def
      same_matchday_count_def newline_def)

subsection \<open>Counting the lines of the output\<close>

lemma formatFixtures_Cons_first:
  "\<exists>rest. formatFixtures (f # fs) = Inr (fixture_line f @ rest) \<and>
          (rest = [] \<or> hd rest = newline)"
proof -
  let ?tail = "map fixture_line (filter (\<lambda>m. matchday m = matchday f) fs)"
  have "formatFixtures (f # fs) = Inr (join [newline] (fixture_line f # ?tail))"
    by (simp add: formatFixtures_Cons)
  also have "join [newline] (fixture_line f # ?tail) =
      fixture_line f @ (if ?tail = [] then [] else newline # join [newline] ?tail)"
    by (simp add: join_Cons)
  finally show ?thesis by auto
qed

lemma first_line_append:
  "newline \<notin> set l \<Longrightarrow> rest = [] \<or> hd rest = newline \<Longrightarrow> first_line (l @ rest) = l"
  by (cases rest) (auto simp add: first_line_def takeWhile_tail)

text \<open>
  C3, as stated, fails: a team name may hold a newline, and then one fixture gives more
  than one line. On the single fixture of \<open>A\<newline>B\<close> against \<open>C\<close> the output has two lines,
  and one fixture is on the first fixture's matchday.
\<close>

theorem formatFixtures_line_count_counterexample:
  \<open>formatFixtures two_line_name_fixtures = Inr ''A\<newline>B - C'' \<and>
   line_count ''A\<newline>B - C'' = 2 \<and>
   same_matchday_count two_line_name_fixtures = 1\<close>
  by (simp add: two_line_name_fixtures_def fixture_def team_named_def formatFixtures_def
      same_matchday_count_def newline_def line_count_def)

text \<open>
  C3, amended. For every input sequence in which no team name of a fixture on the first
  fixture's matchday holds a newline character, the formatter returns a text whose number
  of lines is the number of input fixtures on the first fixture's matchday. On the spec's
  three fixtures (two on matchday 11, one on matchday 12) that is two lines.
\<close>

theorem formatFixtures_line_count:
  assumes "\<forall>m \<in> set fixtures. matchday m = matchday (hd fixtures) \<longrightarrow> names_without_newline m"
  shows "\<exists>out. formatFixtures fixtures = Inr out \<and> line_count out = same_matchday_count fixtures"
proof (cases fixtures)
  case Nil
  then show ?thesis
    by (simp add: formatFixtures_Nil line_count_def same_matchday_count_def)
next
  case (Cons f fs)
  let ?kept = "filter (\<lambda>m. matchday m = matchday f) (f # fs)"
  let ?lines = "map fixture_line ?kept"
  have out: "formatFixtures fixtures = Inr (join [newline] ?lines)"
    unfolding Cons by (rule formatFixtures_Cons)
  have nonempty: "?lines \<noteq> []" by simp
  have "hd ?lines = fixture_line f" by simp
  then have "hd ?lines \<noteq> []" by (simp add: fixture_line_nonempty)
  with nonempty have filled: "join [newline] ?lines \<noteq> []" by (rule join_not_Nil)
  have "\<forall>l \<in> set ?lines. newline \<notin> set l"
    using assms by (auto simp add: Cons fixture_line_newline)
  with nonempty have "count_list (join [newline] ?lines) newline = length ?lines - 1"
    by (rule count_list_join)
  with filled have "line_count (join [newline] ?lines) = length ?kept"
    by (simp add: line_count_def)
  then have "line_count (join [newline] ?lines) = same_matchday_count fixtures"
    by (simp add: Cons same_matchday_count_def)
  with out show ?thesis by blast
qed

theorem formatFixtures_line_count_witness:
  \<open>list_all names_without_newline scenario_fixtures \<and>
   formatFixtures scenario_fixtures = Inr ''Arsenal - Chelsea\<newline>Liverpool - City'' \<and>
   line_count ''Arsenal - Chelsea\<newline>Liverpool - City'' = 2 \<and>
   same_matchday_count scenario_fixtures = 2\<close>
  using formatFixtures_line_count [of scenario_fixtures]
  by (simp add: scenario_fixtures_def fixture_def team_named_def formatFixtures_def
      same_matchday_count_def newline_def names_without_newline_def line_count_def)

subsection \<open>The first line of the output\<close>

text \<open>
  C9, as stated, fails for the same reason: on the single fixture of \<open>A\<newline>B\<close> against
  \<open>C\<close> the first line of the output is \<open>A\<close>, not the text made of the two names.
\<close>

theorem formatFixtures_first_line_counterexample:
  \<open>two_line_name_fixtures \<noteq> [] \<and>
   formatFixtures two_line_name_fixtures = Inr ''A\<newline>B - C'' \<and>
   first_line ''A\<newline>B - C'' = ''A'' \<and>
   fixture_line (hd two_line_name_fixtures) = ''A\<newline>B - C'' \<and>
   first_line ''A\<newline>B - C'' \<noteq> fixture_line (hd two_line_name_fixtures)\<close>
  by (simp add: two_line_name_fixtures_def fixture_def team_named_def formatFixtures_def
      fixture_line_def newline_def first_line_def)

text \<open>
  C9, amended. For every non-empty input sequence the formatter returns a non-empty text
  that begins with \<open>home name - away name\<close> of the first fixture, followed by the end of
  the text or by a newline: the first fixture always passes the filter. When neither name
  of the first fixture holds a newline character, that beginning is exactly the first line
  of the output.
\<close>

theorem formatFixtures_first_line:
  assumes "fixtures \<noteq> []"
  shows "\<exists>out rest. formatFixtures fixtures = Inr out \<and> out \<noteq> [] \<and>
           out = fixture_line (hd fixtures) @ rest \<and> (rest = [] \<or> hd rest = newline) \<and>
           (names_without_newline (hd fixtures) \<longrightarrow> first_line out = fixture_line (hd fixtures))"
proof -
  from assms obtain f fs where fixtures: "fixtures = f # fs" by (cases fixtures) auto
  from formatFixtures_Cons_first [of f fs] obtain rest
    where out: "formatFixtures (f # fs) = Inr (fixture_line f @ rest)"
      and rest: "rest = [] \<or> hd rest = newline" by blast
  have "fixture_line f @ rest \<noteq> []" by (simp add: fixture_line_nonempty)
  moreover have "names_without_newline f \<longrightarrow> first_line (fixture_line f @ rest) = fixture_line f"
    using rest by (simp add: fixture_line_newline first_line_append)
  ultimately show ?thesis using out rest unfolding fixtures by auto
qed

theorem formatFixtures_first_line_witness:
  \<open>scenario_fixtures \<noteq> [] \<and>
   names_without_newline (hd scenario_fixtures) \<and>
   formatFixtures scenario_fixtures = Inr ''Arsenal - Chelsea\<newline>Liverpool - City'' \<and>
   fixture_line (hd scenario_fixtures) = ''Arsenal - Chelsea'' \<and>
   first_line ''Arsenal - Chelsea\<newline>Liverpool - City'' = ''Arsenal - Chelsea''\<close>
  using formatFixtures_first_line [of scenario_fixtures]
  by (simp add: scenario_fixtures_def fixture_def team_named_def formatFixtures_def
      fixture_line_def newline_def names_without_newline_def first_line_def)


section \<open>Properties of the Prompt Builder\<close>

lemma sublist_skip: "sublist xs ys \<Longrightarrow> sublist xs (zs @ ys)"
  unfolding sublist_def by (metis append.assoc)

text \<open>
  C5. For all formatted standings and every fixtures text, the prompt holds the indented
  JSON text of the standings and the fixtures text, each as a contiguous piece.
\<close>

theorem generatePrompt_contains_standings_and_fixtures:
  "sublist (JSON_stringify standings) (generatePrompt standings fixtures) \<and>
   sublist fixtures (generatePrompt standings fixtures)"
proof
  show "sublist (JSON_stringify standings) (generatePrompt standings fixtures)"
    unfolding generatePrompt_def by (rule sublist_appendI)
  show "sublist fixtures (generatePrompt standings fixtures)"
    unfolding generatePrompt_def by (intro sublist_append_rightI sublist_skip)
qed


section \<open>Properties of the startup check\<close>

lemma check_env_required:
  "check_env e requiredEnvVars =
     (if e ''FOOTBALL_API_KEY'' = None \<or> e ''FOOTBALL_API_KEY'' = Some []
      then Inl (Error ''Missing required environment variable: FOOTBALL_API_KEY'')
      else if e ''GOOGLE_API_KEY'' = None \<or> e ''GOOGLE_API_KEY'' = Some []
      then Inl (Error ''Missing required environment variable: GOOGLE_API_KEY'')
      else Inr ())"
  by (simp add: requiredEnvVars_def)

text \<open>
  C7. When \<^verbatim>\<open>FOOTBALL_API_KEY\<close> or \<^verbatim>\<open>GOOGLE_API_KEY\<close> is absent from the environment, the
  startup check throws the error that names a missing variable, the process ends with a
  code other than 0, and the run has sent no request (it has done nothing to the outside).
\<close>

theorem program_missing_key_fails_before_requests:
  assumes "env w ''FOOTBALL_API_KEY'' = None \<or> env w ''GOOGLE_API_KEY'' = None"
  shows "(\<exists>envVar \<in> set requiredEnvVars.
            check_env (env w) requiredEnvVars =
              Inl (Error (''Missing required environment variable: '' @ envVar))) \<and>
         exit_code (program w) \<noteq> 0 \<and>
         events (program w) = []"
  using assms by (auto simp add: program_def check_env_required requiredEnvVars_def)

theorem program_missing_key_fails_before_requests_witness:
  "env world_without_google_key ''GOOGLE_API_KEY'' = None \<and>
   check_env (env world_without_google_key) requiredEnvVars =
     Inl (Error ''Missing required environment variable: GOOGLE_API_KEY'') \<and>
   exit_code (program world_without_google_key) = 1 \<and>
   events (program world_without_google_key) = []"
  using program_missing_key_fails_before_requests [of world_without_google_key]
  by (simp add: program_def check_env_required world_without_google_key_def world_replying_def)


section \<open>Properties of the Prediction Client\<close>

text \<open>
  Whatever text a reply of the expected structure carries, \<^verbatim>\<open>getPredictions\<close> returns
  that text as a string; and a string is no \<^verbatim>\<open>PredictionResponse\<close>.
\<close>

lemma getPredictions_reply_with_text:
  assumes "\<And>request. axios_post w request = Inr (reply_with_text t)"
  shows "snd (getPredictions w prompt) = Inr (JStr t)"
  by (simp add: getPredictions_def assms reply_with_text_def bindE_def Let_def)

lemma JStr_not_PredictionResponse: "\<not> is_PredictionResponse (JStr t)"
  by (simp add: is_PredictionResponse_def)

text \<open>
  C1, at a reply whose text is the JSON of a response without predictions. The client
  returns the text itself, a string, where the claim has it return the parsed value: the
  string is no \<^verbatim>\<open>PredictionResponse\<close>, while the object that the text denotes is one.
\<close>

theorem getPredictions_returns_text_unparsed:
  \<open>snd (getPredictions (world_replying (reply_with_text ''{"predictions": []}'')) scenario_prompt) =
     Inr (JStr ''{"predictions": []}'') \<and>
   \<not> is_PredictionResponse (JStr ''{"predictions": []}'') \<and>
   is_PredictionResponse (JObj [(''predictions'', JArr [])])\<close>
  by (simp add: getPredictions_def world_replying_def reply_with_text_def bindE_def Let_def
      is_PredictionResponse_def)

text \<open>
  Where the test of \<^verbatim>\<open>getPredictions\<close> is false, that is \<^verbatim>\<open>candidates\<close> is falsy or the
  first candidate can be read and its \<^verbatim>\<open>content\<close> is falsy, the client throws the error
  of the invalid response format.
\<close>

lemma getPredictions_invalid_format:
  assumes "\<And>request. axios_post w request = Inr data"
    and "js_prop data ''candidates'' = Inr candidates"
    and "\<not> truthy candidates \<or>
         (\<exists>candidate content. js_index0 candidates = Inr candidate \<and>
            js_prop candidate ''content'' = Inr content \<and> \<not> truthy content)"
  shows "snd (getPredictions w prompt) = Inl (Error ''Invalid response format from Gemini API'')"
  using assms(3) by (auto simp add: getPredictions_def assms(1,2) bindE_def Let_def)

text \<open>
  C6, at the reply \<^verbatim>\<open>{"candidates": []}\<close>. The empty list is truthy and has no first
  element, so reading \<^verbatim>\<open>content\<close> from \<^verbatim>\<open>candidates[0]\<close> throws a \<^verbatim>\<open>TypeError\<close>; the
  error of the invalid response format, which the claim requires, is not the one thrown.
\<close>

theorem getPredictions_empty_candidates:
  "snd (getPredictions (world_replying (JObj [(''candidates'', JArr [])])) scenario_prompt) =
     Inl (TypeError ''content'') \<and>
   TypeError ''content'' \<noteq> Error ''Invalid response format from Gemini API''"
  by (simp add: getPredictions_def world_replying_def bindE_def Let_def)


section \<open>Properties of a run\<close>

lemma getStandings_events: "\<exists>request. fst (getStandings w) = [HttpGet request]"
  by (simp add: getStandings_def Let_def)

lemma getFixtures_events: "\<exists>request. fst (getFixtures w) = [HttpGet request]"
  by (simp add: getFixtures_def Let_def)

lemma getPredictions_events: "\<exists>request. fst (getPredictions w prompt) = [HttpPost request]"
  by (simp add: getPredictions_def Let_def)

lemma result_sink_events:
  "\<forall>ev \<in> set (fst (result_sink w predictions)). \<not> is_request ev \<and>
      (is_write ev \<longrightarrow> (\<exists>contents. ev = WriteFile outputPath contents))"
  by (auto simp add: result_sink_def bindIO_def mkdirSync_def writeFileSync_def is_request_def
      is_write_def split: jsval.splits)

text \<open>
  What the Result Sink writes: the empty string first, and then the returned value, whole,
  when it is a string; no other write.
\<close>

lemma result_sink_writes:
  "filter is_write (fst (result_sink w predictions)) =
     WriteFile outputPath [] #
       (case predictions of JStr s \<Rightarrow> [WriteFile outputPath s] | _ \<Rightarrow> [])"
  by (simp add: result_sink_def bindIO_def mkdirSync_def writeFileSync_def is_write_def
      split: jsval.splits)

text \<open>The \<^verbatim>\<open>try\<close> block, stage by stage: the first stage that throws ends it.\<close>

lemma main_try_eq:
  "main_try w =
     (case snd (getStandings w) of
        Inl e \<Rightarrow> (fst (getStandings w), Inl e)
      | Inr standings \<Rightarrow>
          (case snd (getFixtures w) of
             Inl e \<Rightarrow> (fst (getStandings w) @ fst (getFixtures w), Inl e)
           | Inr fixtures \<Rightarrow>
               (case formatFixtures fixtures of
                  Inl e \<Rightarrow> (fst (getStandings w) @ fst (getFixtures w), Inl e)
                | Inr formattedFixtures \<Rightarrow>
                    (let prompt = generatePrompt (formatStandingsTable standings) formattedFixtures
                     in case snd (getPredictions w prompt) of
                          Inl e \<Rightarrow> (fst (getStandings w) @ fst (getFixtures w) @
                                     fst (getPredictions w prompt), Inl e)
                        | Inr predictions \<Rightarrow>
                            (fst (getStandings w) @ fst (getFixtures w) @
                             fst (getPredictions w prompt) @ fst (result_sink w predictions),
                             snd (result_sink w predictions))))))"
  unfolding main_try_def
  by (simp add: bindIO_def Let_def split: prod.splits sum.splits)

text \<open>
  The order of a run. If the output file is written at all, then \<^verbatim>\<open>getStandings\<close>,
  \<^verbatim>\<open>getFixtures\<close> and \<^verbatim>\<open>getPredictions\<close> have each returned without an error, the three
  requests come first in the run, no request follows them, and the writes of the run are
  these: the empty string to \<^verbatim>\<open>./output/data.json\<close> and then, when the value that
  \<^verbatim>\<open>getPredictions\<close> returned is a string, that string, whole, to the same file. So on a
  failure of a fetch or of the prediction call the file is not written at all.
\<close>

lemma program_writes_only_after_predictions:
  assumes "\<exists>ev \<in> set (events (program w)). is_write ev"
  shows "\<exists>standings fixtures formattedFixtures predictions.
           snd (getStandings w) = Inr standings \<and>
           snd (getFixtures w) = Inr fixtures \<and>
           formatFixtures fixtures = Inr formattedFixtures \<and>
           snd (getPredictions w (generatePrompt (formatStandingsTable standings) formattedFixtures)) =
             Inr predictions \<and>
           (\<exists>r1 r2 r3 rest.
              events (program w) = [HttpGet r1, HttpGet r2, HttpPost r3] @ rest \<and>
              (\<forall>ev \<in> set rest. \<not> is_request ev) \<and>
              filter is_write (events (program w)) =
                WriteFile outputPath [] #
                  (case predictions of JStr s \<Rightarrow> [WriteFile outputPath s] | _ \<Rightarrow> []))"
proof -
  obtain r1 where r1: "fst (getStandings w) = [HttpGet r1]"
    using getStandings_events by blast
  obtain r2 where r2: "fst (getFixtures w) = [HttpGet r2]"
    using getFixtures_events by blast
  have env_ok: "program w = main w"
    using assms by (auto simp add: program_def split: sum.splits)
  have ev: "events (main w) = fst (main_try w)"
    by (simp add: main_def split: prod.splits sum.splits)
  from assms env_ok ev have w: "\<exists>ev \<in> set (fst (main_try w)). is_write ev" by simp
  from w r1 obtain standings where standings: "snd (getStandings w) = Inr standings"
    by (cases "snd (getStandings w)") (auto simp add: main_try_eq is_write_def)
  from w r1 r2 standings obtain fixtures where fixtures: "snd (getFixtures w) = Inr fixtures"
    by (cases "snd (getFixtures w)") (auto simp add: main_try_eq is_write_def)
  from w r1 r2 standings fixtures obtain formattedFixtures
    where formatted: "formatFixtures fixtures = Inr formattedFixtures"
    by (cases "formatFixtures fixtures") (auto simp add: main_try_eq is_write_def)
  let ?prompt = "generatePrompt (formatStandingsTable standings) formattedFixtures"
  obtain r3 where r3: "fst (getPredictions w ?prompt) = [HttpPost r3]"
    using getPredictions_events by blast
  from w r1 r2 r3 standings fixtures formatted obtain predictions
    where predictions: "snd (getPredictions w ?prompt) = Inr predictions"
    by (cases "snd (getPredictions w ?prompt)") (auto simp add: main_try_eq is_write_def Let_def)
  have run: "events (program w) =
          [HttpGet r1, HttpGet r2, HttpPost r3] @ fst (result_sink w predictions)"
    by (simp add: env_ok ev main_try_eq standings fixtures formatted predictions r1 r2 r3 Let_def)
  have quiet: "\<forall>ev \<in> set (fst (result_sink w predictions)). \<not> is_request ev"
    using result_sink_events [of w predictions] by blast
  have "filter is_write (events (program w)) =
          filter is_write (fst (result_sink w predictions))"
    unfolding run by (simp add: is_write_def)
  then have writes: "filter is_write (events (program w)) =
          WriteFile outputPath [] #
            (case predictions of JStr s \<Rightarrow> [WriteFile outputPath s] | _ \<Rightarrow> [])"
    by (simp only: result_sink_writes)
  from standings fixtures formatted predictions run quiet writes
  show ?thesis by blast
qed

text \<open>
  The file is cleared before it is written: when the reply has the expected structure and
  its first part carries no text, the client returns \<^verbatim>\<open>undefined\<close>, which nothing checks,
  the run clears the file, the second write throws, and the run ends with code 1 and an
  empty file.
\<close>

lemma program_clears_file_then_fails:
  "filter is_write
     (events (program (world_replying
        (JObj [(''candidates'',
                JArr [JObj [(''content'', JObj [(''parts'', JArr [JObj []])])]])])))) =
     [WriteFile outputPath []] \<and>
   exit_code (program (world_replying
        (JObj [(''candidates'',
                JArr [JObj [(''content'', JObj [(''parts'', JArr [JObj []])])]])]))) = 1"
  by (simp add: program_def main_def main_try_eq result_sink_def world_replying_def
      check_env_required getStandings_def getFixtures_def getPredictions_def
      bindE_def bindIO_def mkdirSync_def writeFileSync_def is_write_def Let_def
      formatFixtures_Cons scenario_fixtures_def)

text \<open>
  C8, at a reply whose text is \<open>not JSON\<close>. The claim has the file written only after a
  fully parsed response. The client returns the text as a string, unparsed and unchecked, and
  the run clears the file, writes that string to it and ends with code 0: the file holds a
  text that is no JSON, and what was written is no \<^verbatim>\<open>PredictionResponse\<close>.
\<close>

theorem program_writes_unparsed_text:
  \<open>filter is_write (events (program (world_replying (reply_with_text ''not JSON'')))) =
     [WriteFile outputPath [], WriteFile outputPath ''not JSON''] \<and>
   exit_code (program (world_replying (reply_with_text ''not JSON''))) = 0 \<and>
   snd (getPredictions (world_replying (reply_with_text ''not JSON'')) scenario_prompt) =
     Inr (JStr ''not JSON'') \<and>
   \<not> is_PredictionResponse (JStr ''not JSON'')\<close>
  by (simp add: program_def main_def main_try_eq result_sink_def world_replying_def
      check_env_required reply_with_text_def getStandings_def getFixtures_def getPredictions_def
      bindE_def bindIO_def mkdirSync_def writeFileSync_def is_write_def Let_def
      formatFixtures_Cons scenario_fixtures_def is_PredictionResponse_def)

end
